theory Spec2Isabelle
  imports Complex_Main "HOL-Library.Sublist"
begin

section \<open>The UrbanSound8K metadata parser (urbansound8k\_parser.py)\<close>

text \<open>
  The script reads a table with \<^verbatim>\<open>pandas.read_csv\<close>, builds one JAMS document per row
  (\<^verbatim>\<open>create_snippet_jam\<close>) and saves it under a name derived from the row
  (\<^verbatim>\<open>process_metadata\<close>). The development below embeds these functions: a row is a map
  from column names to values, a Python exception is the left summand of a sum type, and
  the files written by \<^verbatim>\<open>jam.save\<close> are a map from paths to documents.
\<close>

subsection \<open>Values and rows\<close>

text \<open>
  The cells of a row are Python integers, floats or strings. A float is idealised as a
  real number: rounding, infinities and NaN are not represented. The only arithmetic of
  the script is the subtraction \<^verbatim>\<open>row['end'] - row['start']\<close>.
\<close>

datatype pyval = PInt int | PFloat real | PStr string

type_synonym row = "string \<rightharpoonup> pyval"

datatype error =
    KeyError string
  | TypeError
  | AttributeError
  | OtherError string

text \<open>\<^verbatim>\<open>row[k]\<close>: a missing label raises KeyError.\<close>

definition getitem :: "row \<Rightarrow> string \<Rightarrow> error + pyval" where
  "getitem row k = (case row k of None \<Rightarrow> Inl (KeyError k) | Some v \<Rightarrow> Inr v)"

text \<open>
  Python's binary minus on these values: integers stay integers, a float operand makes
  the result a float, a string operand raises TypeError.
\<close>

fun py_sub :: "pyval \<Rightarrow> pyval \<Rightarrow> error + pyval" where
  "py_sub (PInt a) (PInt b) = Inr (PInt (a - b))"
| "py_sub (PInt a) (PFloat b) = Inr (PFloat (of_int a - b))"
| "py_sub (PFloat a) (PInt b) = Inr (PFloat (a - of_int b))"
| "py_sub (PFloat a) (PFloat b) = Inr (PFloat (a - b))"
| "py_sub _ _ = Inl TypeError"

text \<open>Whether a value is a number, and the number it denotes.\<close>

fun numeric :: "pyval \<Rightarrow> bool" where
  "numeric (PInt _) = True"
| "numeric (PFloat _) = True"
| "numeric (PStr _) = False"

fun num_value :: "pyval \<Rightarrow> real" where
  "num_value (PInt a) = of_int a"
| "num_value (PFloat a) = a"
| "num_value (PStr _) = 0"

text \<open>The expression \<^verbatim>\<open>row['end'] - row['start']\<close>, evaluated left to right.\<close>

definition row_duration :: "row \<Rightarrow> error + pyval" where
  "row_duration row =
     (case getitem row ''end'' of
        Inl x \<Rightarrow> Inl x
      | Inr e \<Rightarrow>
          (case getitem row ''start'' of
             Inl x \<Rightarrow> Inl x
           | Inr s \<Rightarrow> py_sub e s))"

subsection \<open>The JAMS document\<close>

text \<open>
  The objects of the jams library are records holding the fields the script assigns.
  Fields of different objects that share a name in jams (\<^verbatim>\<open>duration\<close>, \<^verbatim>\<open>time\<close>,
  \<^verbatim>\<open>value\<close>) carry a prefix here. Constructors give empty defaults; an assignment is a
  record update and \<^verbatim>\<open>append\<close> adds to the end of a list.
\<close>

record observation =
  obs_time :: pyval
  obs_duration :: pyval
  obs_value :: pyval
  obs_confidence :: pyval

record person =
  name :: string
  email :: string

record annotation_metadata =
  annotation_tools :: string
  curator :: person
  annotator :: "(string \<times> person list) list"
  version :: string
  corpus :: string
  annotation_rules :: string
  data_source :: string
  validation :: string

record annotation =
  namespace :: string
  ann_data :: "observation list"
  ann_duration :: "pyval option"
  annotation_metadata :: annotation_metadata
  sandbox :: "string \<rightharpoonup> pyval"

record file_metadata =
  title :: pyval
  release :: string
  fm_duration :: "pyval option"
  artist :: string

record jams =
  file_metadata :: file_metadata
  annotations :: "annotation list"

definition JAMS :: jams where
  "JAMS = \<lparr>file_metadata =
             \<lparr>title = PStr [], release = [], fm_duration = None, artist = []\<rparr>,
           annotations = []\<rparr>"

definition Annotation :: "string \<Rightarrow> annotation" where
  "Annotation ns =
     \<lparr>namespace = ns, ann_data = [], ann_duration = None,
      annotation_metadata =
        \<lparr>annotation_tools = [], curator = \<lparr>name = [], email = []\<rparr>, annotator = [],
         version = [], corpus = [], annotation_rules = [], data_source = [],
         validation = []\<rparr>,
      sandbox = Map.empty\<rparr>"

text \<open>\<^verbatim>\<open>ann.append(time=t, duration=d, value=v, confidence=c)\<close>\<close>

definition ann_append :: "annotation \<Rightarrow> pyval \<Rightarrow> pyval \<Rightarrow> pyval \<Rightarrow> pyval \<Rightarrow> annotation" where
  "ann_append ann t d v c =
     ann\<lparr>ann_data := ann_data ann @
           [\<lparr>obs_time = t, obs_duration = d, obs_value = v, obs_confidence = c\<rparr>]\<rparr>"

subsection \<open>Filling the document\<close>

definition fill_file_metadata :: "jams \<Rightarrow> row \<Rightarrow> error + jams" where
  "fill_file_metadata jam row =
     (case getitem row ''slice_file_name'' of
        Inl x \<Rightarrow> Inl x
      | Inr t \<Rightarrow>
          (case row_duration row of
             Inl x \<Rightarrow> Inl x
           | Inr d \<Rightarrow>
               Inr (jam\<lparr>file_metadata := (file_metadata jam)
                      \<lparr>title := t, release := ''1.0'', fm_duration := Some d,
                       artist := ''UrbanSound8K''\<rparr>\<rparr>)))"

definition fill_annotation_metadata :: "annotation \<Rightarrow> row \<Rightarrow> annotation" where
  \<open>fill_annotation_metadata ann row =
     (let salamon = \<lparr>name = ''Justin Salamon'', email = ''justin.salamon@nyu.edu''\<rparr>;
          jacoby = \<lparr>name = ''Christopher Jacoby'', email = ''christopher.jacoby@gmail.com''\<rparr>;
          annotators = [(''annotators'', [salamon, jacoby])];
          md = (annotation_metadata ann)
            \<lparr>annotation_tools := ''Sonic Visualiser'',
             curator := salamon,
             annotator := annotators,
             version := ''1.0'',
             corpus := ''UrbanSound8K'',
             annotation_rules :=
               ''See: J. Salamon, C. Jacoby and J. P. Bello, "A Dataset and Taxonomy '' @
               ''for Urban Sound Research", in Proc. 22nd ACM International Conference '' @
               ''on Multimedia, Orlando, USA, Nov. 2014.'',
             data_source := ''https://serv.cusp.nyu.edu/projects/urbansounddataset/'',
             validation := []\<rparr>
      in ann\<lparr>annotation_metadata := md, sandbox := sandbox ann ++ row\<rparr>)\<close>

definition create_snippet_jam :: "row \<Rightarrow> error + jams" where
  "create_snippet_jam row =
     (let jam = JAMS; ann = Annotation ''tag_open'' in
      case row_duration row of
        Inl x \<Rightarrow> Inl x
      | Inr d \<Rightarrow>
          (case getitem row ''class'' of
             Inl x \<Rightarrow> Inl x
           | Inr c \<Rightarrow>
               (let ann = ann_append ann (PInt 0) d c (PFloat 1) in
                case row_duration row of
                  Inl x \<Rightarrow> Inl x
                | Inr d' \<Rightarrow>
                    (let ann = ann\<lparr>ann_duration := Some d'\<rparr> in
                     case fill_file_metadata jam row of
                       Inl x \<Rightarrow> Inl x
                     | Inr jam \<Rightarrow>
                         (let ann = fill_annotation_metadata ann row in
                          Inr (jam\<lparr>annotations := annotations jam @ [ann]\<rparr>))))))"

subsection \<open>The output file name\<close>

text \<open>
  \<^verbatim>\<open>s.replace(old, new)\<close> rewrites every occurrence of \<^verbatim>\<open>old\<close>, scanning from the
  left and continuing after each occurrence; with an empty \<^verbatim>\<open>old\<close> it puts \<^verbatim>\<open>new\<close>
  before every character and at the end.
\<close>

function replace_all :: "string \<Rightarrow> string \<Rightarrow> string \<Rightarrow> string" where
  "replace_all old new s =
     (if old = [] then s
      else if prefix old s then new @ replace_all old new (drop (length old) s)
      else (case s of [] \<Rightarrow> [] | c # cs \<Rightarrow> c # replace_all old new cs))"
  by pat_completeness auto
termination
  by (relation "measure (\<lambda>(old, new, s). length s)") (auto simp: prefix_def)

definition str_replace :: "string \<Rightarrow> string \<Rightarrow> string \<Rightarrow> string" where
  "str_replace old new s =
     (if old = [] then new @ concat (map (\<lambda>c. c # new) s) else replace_all old new s)"

text \<open>\<^verbatim>\<open>os.path.join(a, b)\<close> of posixpath, for two components.\<close>

definition path_join :: "string \<Rightarrow> string \<Rightarrow> string" where
  "path_join a b =
     (if prefix ''/'' b then b
      else if a = [] \<or> suffix ''/'' a then a @ b
      else a @ ''/'' @ b)"

text \<open>
  The path expression of \<^verbatim>\<open>process_metadata\<close>. A cell that is not a string has no
  \<^verbatim>\<open>replace\<close> method.
\<close>

definition out_file :: "string \<Rightarrow> row \<Rightarrow> error + string" where
  "out_file out_dir row =
     (case getitem row ''slice_file_name'' of
        Inl x \<Rightarrow> Inl x
      | Inr v \<Rightarrow>
          (case v of
             PStr n \<Rightarrow> Inr (path_join out_dir (str_replace ''.wav'' ''.jams'' n))
           | _ \<Rightarrow> Inl AttributeError))"

subsection \<open>The batch driver\<close>

text \<open>
  The disk maps a path to the document saved there. The two library calls that touch
  the outside world are parameters: \<open>read_csv\<close> returns the rows of a table or the
  exception it raised, and \<open>save_err p jam\<close> is the exception, if any, that
  \<^verbatim>\<open>jam.save(p)\<close> raises (a missing directory, a document the library rejects). A save
  that raises leaves the disk as it was; a save that returns has created or overwritten
  the file at \<open>p\<close>.
\<close>

type_synonym disk = "string \<rightharpoonup> jams"

definition jam_save :: "(string \<Rightarrow> jams \<Rightarrow> error option) \<Rightarrow> jams \<Rightarrow> string \<Rightarrow> disk \<Rightarrow> error + disk" where
  "jam_save save_err jam p fs =
     (case save_err p jam of Some x \<Rightarrow> Inl x | None \<Rightarrow> Inr (fs(p \<mapsto> jam)))"

text \<open>The body of the loop over the rows.\<close>

definition process_row :: "(string \<Rightarrow> jams \<Rightarrow> error option) \<Rightarrow> string \<Rightarrow> row \<Rightarrow> disk \<Rightarrow> error + disk" where
  "process_row save_err out_dir row fs =
     (case create_snippet_jam row of
        Inl x \<Rightarrow> Inl x
      | Inr jam \<Rightarrow>
          (case out_file out_dir row of
             Inl x \<Rightarrow> Inl x
           | Inr p \<Rightarrow> jam_save save_err jam p fs))"

text \<open>
  The loop: the result is the disk when the run ended and the exception that ended it,
  if any.
\<close>

fun process_rows :: "(string \<Rightarrow> jams \<Rightarrow> error option) \<Rightarrow> string \<Rightarrow> row list \<Rightarrow> disk \<Rightarrow> disk \<times> error option" where
  "process_rows save_err out_dir [] fs = (fs, None)"
| "process_rows save_err out_dir (row # rows) fs =
     (case process_row save_err out_dir row fs of
        Inl x \<Rightarrow> (fs, Some x)
      | Inr fs' \<Rightarrow> process_rows save_err out_dir rows fs')"

definition process_metadata ::
  "(string \<Rightarrow> error + row list) \<Rightarrow> (string \<Rightarrow> jams \<Rightarrow> error option) \<Rightarrow>
   string \<Rightarrow> string \<Rightarrow> disk \<Rightarrow> disk \<times> error option" where
  "process_metadata read_csv save_err metadata_file out_dir fs =
     (case read_csv metadata_file of
        Inl x \<Rightarrow> (fs, Some x)
      | Inr df \<Rightarrow> process_rows save_err out_dir df fs)"

subsection \<open>Reference definitions and sample rows\<close>

text \<open>
  The file name as the specification words it: a trailing \<^verbatim>\<open>.wav\<close> is replaced by
  \<^verbatim>\<open>.jams\<close> and nothing else changes. It is compared with \<open>out_file\<close> below.
\<close>

definition spec_out_name :: "string \<Rightarrow> string" where
  "spec_out_name n =
     (if suffix ''.wav'' n then take (length n - length ''.wav'') n @ ''.jams'' else n)"

text \<open>
  Three rows: the example of the specification, a row whose span is reversed, and a
  second well-formed row.
\<close>

definition row_dog_bark :: row where
  "row_dog_bark =
     [''slice_file_name'' \<mapsto> PStr ''100032-3-0-0.wav'', ''class'' \<mapsto> PStr ''dog_bark'',
      ''start'' \<mapsto> PFloat 0, ''end'' \<mapsto> PFloat 4, ''fold'' \<mapsto> PInt 5,
      ''classID'' \<mapsto> PInt 3]"

definition row_reversed :: row where
  "row_reversed =
     [''slice_file_name'' \<mapsto> PStr ''7061-6-0-0.wav'', ''class'' \<mapsto> PStr ''gun_shot'',
      ''start'' \<mapsto> PFloat 4, ''end'' \<mapsto> PFloat 1.5]"

definition row_siren :: row where
  "row_siren =
     [''slice_file_name'' \<mapsto> PStr ''102853-8-0-0.wav'', ''class'' \<mapsto> PStr ''siren'',
      ''start'' \<mapsto> PFloat 0, ''end'' \<mapsto> PFloat 4, ''fold'' \<mapsto> PInt 7,
      ''classID'' \<mapsto> PInt 8]"

text \<open>
  A writer that refuses a document whose file duration is negative, as a validating
  \<^verbatim>\<open>save\<close> does; used as a sample value of \<open>save_err\<close>.
\<close>

definition rejects_negative :: "string \<Rightarrow> jams \<Rightarrow> error option" where
  "rejects_negative p jam =
     (case fm_duration (file_metadata jam) of
        None \<Rightarrow> None
      | Some d \<Rightarrow> if num_value d < 0 then Some (OtherError ''SchemaError'') else None)"

section \<open>Properties\<close>

subsection \<open>Replacing in strings\<close>

declare replace_all.simps [simp del]

lemma replace_all_Nil: "replace_all old new [] = []"
  by (subst replace_all.simps) simp

lemma replace_all_prefix:
  "old \<noteq> [] \<Longrightarrow> replace_all old new (old @ s) = new @ replace_all old new s"
  by (subst replace_all.simps) simp

lemma replace_all_Cons:
  "\<not> prefix old (c # cs) \<Longrightarrow> replace_all old new (c # cs) = c # replace_all old new cs"
  by (subst replace_all.simps) auto

lemma replace_all_absent:
  "\<not> sublist old s \<Longrightarrow> replace_all old new s = s"
proof (induction s)
  case Nil
  show ?case by (rule replace_all_Nil)
next
  case (Cons c cs)
  from Cons.prems have np: "\<not> prefix old (c # cs)"
    using prefix_imp_sublist by blast
  from Cons.prems have "\<not> sublist old cs"
    by (meson sublist_Cons_right)
  with Cons.IH np show ?case by (simp add: replace_all_Cons)
qed

lemma wav_prefix_through:
  assumes "prefix ''.wav'' (p @ ''.wav'' @ rest)" "p \<noteq> []"
  shows "prefix ''.wav'' p"
proof -
  obtain a p1 where p: "p = a # p1" using assms(2) by (cases p) auto
  show ?thesis
  proof (cases p1)
    case Nil with assms(1) p show ?thesis by simp
  next
    case (Cons b p2)
    note c1 = Cons
    show ?thesis
    proof (cases p2)
      case Nil with assms(1) p c1 show ?thesis by simp
    next
      case (Cons c p3)
      note c2 = Cons
      show ?thesis
      proof (cases p3)
        case Nil with assms(1) p c1 c2 show ?thesis by simp
      next
        case (Cons d p4)
        with assms(1) p c1 c2 show ?thesis by simp
      qed
    qed
  qed
qed

lemma replace_all_wav_segment:
  "\<not> sublist ''.wav'' p \<Longrightarrow>
     replace_all ''.wav'' new (p @ ''.wav'' @ rest) = p @ new @ replace_all ''.wav'' new rest"
proof (induction p)
  case Nil
  show ?case using replace_all_prefix [of "''.wav''" new rest] by simp
next
  case (Cons c cs)
  have "\<not> prefix ''.wav'' (c # cs)"
    using Cons.prems prefix_imp_sublist by blast
  then have np: "\<not> prefix ''.wav'' ((c # cs) @ ''.wav'' @ rest)"
    using wav_prefix_through [of "c # cs" rest] by blast
  from Cons.prems have "\<not> sublist ''.wav'' cs"
    by (meson sublist_Cons_right)
  with Cons.IH have "replace_all ''.wav'' new (cs @ ''.wav'' @ rest) = cs @ new @ replace_all ''.wav'' new rest"
    by simp
  with np show ?case using replace_all_Cons [of "''.wav''" c "cs @ ''.wav'' @ rest" new] by simp
qed

lemma replace_all_wav_segments:
  "\<forall>p\<in>set ps. \<not> sublist ''.wav'' p \<Longrightarrow> \<not> sublist ''.wav'' q \<Longrightarrow>
     replace_all ''.wav'' new (concat (map (\<lambda>p. p @ ''.wav'') ps) @ q) =
       concat (map (\<lambda>p. p @ new) ps) @ q"
proof (induction ps)
  case Nil
  then show ?case by (simp add: replace_all_absent)
next
  case (Cons p ps)
  then show ?case
    using replace_all_wav_segment [of p new "concat (map (\<lambda>p. p @ ''.wav'') ps) @ q"]
    by simp
qed

subsection \<open>The document built from a well-formed row\<close>

text \<open>
  A row is well-formed when it has the fields \<^verbatim>\<open>end\<close>, \<^verbatim>\<open>start\<close>, \<^verbatim>\<open>class\<close> and
  \<^verbatim>\<open>slice_file_name\<close> and its \<^verbatim>\<open>end\<close> and \<^verbatim>\<open>start\<close> are numbers. On such a row every
  lookup and the subtraction succeed, and the document is the following.
\<close>

lemma py_sub_numeric:
  "numeric e \<Longrightarrow> numeric s \<Longrightarrow>
     \<exists>d. py_sub e s = Inr d \<and> num_value d = num_value e - num_value s"
  by (cases e; cases s) simp_all

lemma create_snippet_jam_Inr:
  assumes "row ''end'' = Some e" "row ''start'' = Some s" "py_sub e s = Inr d"
    and "row ''class'' = Some c" "row ''slice_file_name'' = Some n"
  shows "create_snippet_jam row =
     Inr \<lparr>file_metadata =
            \<lparr>title = n, release = ''1.0'', fm_duration = Some d, artist = ''UrbanSound8K''\<rparr>,
          annotations =
            [fill_annotation_metadata
               ((ann_append (Annotation ''tag_open'') (PInt 0) d c (PFloat 1))
                  \<lparr>ann_duration := Some d\<rparr>) row]\<rparr>"
  using assms
  by (simp add: create_snippet_jam_def fill_file_metadata_def row_duration_def getitem_def
      JAMS_def Let_def)


text \<open>
  The rows on which a document is built are exactly the well-formed ones.
\<close>

lemma py_sub_Inr_numeric: "(\<exists>d. py_sub e s = Inr d) \<longleftrightarrow> numeric e \<and> numeric s"
  by (cases e; cases s) simp_all

lemma create_snippet_jam_Inr_iff:
  "(\<exists>jam. create_snippet_jam row = Inr jam) \<longleftrightarrow>
   (\<exists>e s c n. row ''end'' = Some e \<and> row ''start'' = Some s \<and> numeric e \<and> numeric s \<and>
      row ''class'' = Some c \<and> row ''slice_file_name'' = Some n)"
proof
  assume "\<exists>jam. create_snippet_jam row = Inr jam"
  then obtain e s d c n where "row ''end'' = Some e" "row ''start'' = Some s"
    "py_sub e s = Inr d" "row ''class'' = Some c" "row ''slice_file_name'' = Some n"
    by (auto simp add: create_snippet_jam_def fill_file_metadata_def row_duration_def
        getitem_def Let_def split: option.splits sum.splits)
  then show "\<exists>e s c n. row ''end'' = Some e \<and> row ''start'' = Some s \<and> numeric e \<and> numeric s \<and>
      row ''class'' = Some c \<and> row ''slice_file_name'' = Some n"
    using py_sub_Inr_numeric [of e s] by blast
next
  assume "\<exists>e s c n. row ''end'' = Some e \<and> row ''start'' = Some s \<and> numeric e \<and> numeric s \<and>
      row ''class'' = Some c \<and> row ''slice_file_name'' = Some n"
  then obtain e s c n where h: "row ''end'' = Some e" "row ''start'' = Some s" "numeric e"
    "numeric s" "row ''class'' = Some c" "row ''slice_file_name'' = Some n" by blast
  from py_sub_numeric [OF h(3,4)] obtain d where "py_sub e s = Inr d" by blast
  from create_snippet_jam_Inr [OF h(1,2) this h(5,6)] show "\<exists>jam. create_snippet_jam row = Inr jam"
    by blast
qed

subsection \<open>Durations\<close>





subsection \<open>The fields of the document\<close>





text \<open>
  Claim C5. For every well-formed row, the file metadata of the document has the row's
  \<^verbatim>\<open>slice_file_name\<close> as title, release \<^verbatim>\<open>"1.0"\<close> and artist \<^verbatim>\<open>"UrbanSound8K"\<close>.
\<close>

theorem file_metadata_fields:
  assumes "row ''end'' = Some e" "row ''start'' = Some s" "numeric e" "numeric s"
    and "row ''class'' = Some c" "row ''slice_file_name'' = Some n"
  shows "\<exists>jam. create_snippet_jam row = Inr jam \<and> title (file_metadata jam) = n \<and>
           release (file_metadata jam) = ''1.0'' \<and>
           artist (file_metadata jam) = ''UrbanSound8K''"
proof -
  from py_sub_numeric [OF assms(3,4)] obtain d where d: "py_sub e s = Inr d" by blast
  show ?thesis
    using create_snippet_jam_Inr [OF assms(1,2) d assms(5,6)] by simp
qed

theorem file_metadata_fields_witness:
  "row_dog_bark ''end'' = Some (PFloat 4) \<and> row_dog_bark ''start'' = Some (PFloat 0) \<and>
   numeric (PFloat 4) \<and> numeric (PFloat 0) \<and>
   row_dog_bark ''slice_file_name'' = Some (PStr ''100032-3-0-0.wav'') \<and>
   (\<exists>jam. create_snippet_jam row_dog_bark = Inr jam \<and>
      title (file_metadata jam) = PStr ''100032-3-0-0.wav'' \<and>
      release (file_metadata jam) = ''1.0'' \<and> artist (file_metadata jam) = ''UrbanSound8K'')"
  using file_metadata_fields [of row_dog_bark "PFloat 4" "PFloat 0" "PStr ''dog_bark''"
      "PStr ''100032-3-0-0.wav''"]
  by (simp add: row_dog_bark_def)

subsection \<open>The output file name\<close>

text \<open>
  Claim C2, as the code has it. \<^verbatim>\<open>replace\<close> rewrites every occurrence of \<^verbatim>\<open>.wav\<close>, not
  only a trailing one: a name made of pieces free of \<^verbatim>\<open>.wav\<close>, each of \<open>ps\<close> followed
  by \<^verbatim>\<open>.wav\<close> and then \<open>q\<close>, becomes the same pieces with \<^verbatim>\<open>.jams\<close> in place of every
  \<^verbatim>\<open>.wav\<close>, joined to the output directory by \<open>path_join\<close>. With one piece and an empty
  \<open>q\<close> this is the name whose only \<^verbatim>\<open>.wav\<close> is its suffix, and the suffix alone changes.
\<close>

theorem file_name_every_wav_replaced:
  assumes "row ''slice_file_name'' = Some (PStr (concat (map (\<lambda>p. p @ ''.wav'') ps) @ q))"
    and "\<forall>p\<in>set ps. \<not> sublist ''.wav'' p" and "\<not> sublist ''.wav'' q"
  shows "out_file out_dir row =
           Inr (path_join out_dir (concat (map (\<lambda>p. p @ ''.jams'') ps) @ q))"
  using assms(1) replace_all_wav_segments [OF assms(2,3), of "''.jams''"]
  by (simp add: out_file_def getitem_def str_replace_def)

theorem file_name_every_wav_replaced_witness:
  "row_dog_bark ''slice_file_name'' = Some (PStr (concat (map (\<lambda>p. p @ ''.wav'') [''100032-3-0-0'']) @ [])) \<and>
   \<not> sublist ''.wav'' ''100032-3-0-0'' \<and> \<not> sublist ''.wav'' [] \<and>
   out_file ''UrbanSound8K_jams'' row_dog_bark = Inr ''UrbanSound8K_jams/100032-3-0-0.jams''"
proof -
  have a: "row_dog_bark ''slice_file_name'' =
      Some (PStr (concat (map (\<lambda>p. p @ ''.wav'') [''100032-3-0-0'']) @ []))"
    by (simp add: row_dog_bark_def)
  have b': "\<not> sublist ''.wav'' ''100032-3-0-0''"
    by (simp add: sublist_code)
  have c: "\<not> sublist ''.wav'' []" by simp
  show ?thesis
    using a b' c file_name_every_wav_replaced [of row_dog_bark "[''100032-3-0-0'']" "[]"
        "''UrbanSound8K_jams''"]
    by (simp add: path_join_def suffix_to_prefix)
qed

text \<open>
  The claim as the specification words it fails on a name with a second \<^verbatim>\<open>.wav\<close>: for
  \<^verbatim>\<open>clip.wave.wav\<close> the code writes \<^verbatim>\<open>clip.jamse.jams\<close>, and replacing the trailing
  suffix alone would give \<^verbatim>\<open>clip.wave.jams\<close>.
\<close>

theorem file_name_trailing_wav_counterexample:
  "out_file ''UrbanSound8K_jams'' [''slice_file_name'' \<mapsto> PStr ''clip.wave.wav''] =
     Inr ''UrbanSound8K_jams/clip.jamse.jams'' \<and>
   path_join ''UrbanSound8K_jams'' (spec_out_name ''clip.wave.wav'') =
     ''UrbanSound8K_jams/clip.wave.jams''"
  by (simp add: out_file_def getitem_def str_replace_def replace_all.simps path_join_def
      spec_out_name_def suffix_to_prefix)

text \<open>
  Claim C10. For every row whose \<^verbatim>\<open>slice_file_name\<close> is a string in which \<^verbatim>\<open>.wav\<close> does
  not occur, the output file name is that name unchanged, with no \<^verbatim>\<open>.jams\<close> appended,
  joined to the output directory.
\<close>

theorem file_name_without_wav:
  assumes "row ''slice_file_name'' = Some (PStr n)" and "\<not> sublist ''.wav'' n"
  shows "out_file out_dir row = Inr (path_join out_dir n)"
  using assms(1) replace_all_absent [OF assms(2), of "''.jams''"]
  by (simp add: out_file_def getitem_def str_replace_def)

theorem file_name_without_wav_witness:
  "[''slice_file_name'' \<mapsto> PStr ''17592-5-1-1.mp3''] ''slice_file_name'' = Some (PStr ''17592-5-1-1.mp3'') \<and>
   \<not> sublist ''.wav'' ''17592-5-1-1.mp3'' \<and>
   out_file ''UrbanSound8K_jams'' [''slice_file_name'' \<mapsto> PStr ''17592-5-1-1.mp3''] =
     Inr ''UrbanSound8K_jams/17592-5-1-1.mp3''"
proof -
  have b: "\<not> sublist ''.wav'' ''17592-5-1-1.mp3''"
    by (simp add: sublist_code)
  show ?thesis
    using b file_name_without_wav [of "[''slice_file_name'' \<mapsto> PStr ''17592-5-1-1.mp3'']"
        "''17592-5-1-1.mp3''" "''UrbanSound8K_jams''"]
    by (simp add: path_join_def suffix_to_prefix)
qed

subsection \<open>The batch driver\<close>

text \<open>
  One pass of the loop body succeeds exactly when the document is built, the path is
  computed and the save raises nothing; its failure does not depend on the disk.
\<close>

lemma process_row_Inr:
  "process_row save_err out_dir r fs = Inr fs' \<longleftrightarrow>
     (\<exists>jam p. create_snippet_jam r = Inr jam \<and> out_file out_dir r = Inr p \<and>
        save_err p jam = None \<and> fs' = fs(p \<mapsto> jam))"
  by (auto simp add: process_row_def jam_save_def split: sum.splits option.splits)

lemma process_row_Inl_any_disk:
  "process_row save_err out_dir r fs = Inl x \<Longrightarrow> process_row save_err out_dir r fs' = Inl x"
  by (auto simp add: process_row_def jam_save_def split: sum.splits option.splits)


lemma fold_upt_Suc_shift:
  "fold f [0..<Suc k] x = fold (\<lambda>i. f (Suc i)) [0..<k] (f 0 x)"
proof -
  have "[0..<Suc k] = 0 # map Suc [0..<k]"
    by (simp add: upt_conv_Cons map_Suc_upt del: upt_Suc)
  then show ?thesis by (simp add: fold_map comp_def del: upt_Suc)
qed

lemma process_rows_first_failure:
  assumes "k < length rows"
    and "\<forall>i<k. create_snippet_jam (rows ! i) = Inr (jam i) \<and>
           out_file out_dir (rows ! i) = Inr (path i) \<and> save_err (path i) (jam i) = None"
    and "process_row save_err out_dir (rows ! k) fs0 = Inl x"
  shows "process_rows save_err out_dir rows fs =
           (fold (\<lambda>i d. d(path i \<mapsto> jam i)) [0..<k] fs, Some x)"
  using assms
proof (induction rows arbitrary: k jam path fs)
  case Nil
  then show ?case by simp
next
  case (Cons r rs)
  show ?case
  proof (cases k)
    case 0
    with Cons.prems(3) have "process_row save_err out_dir r fs0 = Inl x" by simp
    then have "process_row save_err out_dir r fs = Inl x"
      by (rule process_row_Inl_any_disk)
    with 0 show ?thesis by simp
  next
    case (Suc k')
    have "0 < k" using Suc by simp
    from Cons.prems(2) [rule_format, OF this] have
      "create_snippet_jam r = Inr (jam 0) \<and> out_file out_dir r = Inr (path 0) \<and>
       save_err (path 0) (jam 0) = None"
      by simp
    then have step: "process_row save_err out_dir r fs = Inr (fs(path 0 \<mapsto> jam 0))"
      by (simp add: process_row_Inr)
    have len: "k' < length rs" using Cons.prems(1) Suc by simp
    have ok: "\<forall>i<k'. create_snippet_jam (rs ! i) = Inr (jam (Suc i)) \<and>
           out_file out_dir (rs ! i) = Inr (path (Suc i)) \<and>
           save_err (path (Suc i)) (jam (Suc i)) = None"
    proof (intro allI impI)
      fix i assume "i < k'"
      then have "Suc i < k" using Suc by simp
      from Cons.prems(2) [rule_format, OF this]
      show "create_snippet_jam (rs ! i) = Inr (jam (Suc i)) \<and>
           out_file out_dir (rs ! i) = Inr (path (Suc i)) \<and>
           save_err (path (Suc i)) (jam (Suc i)) = None"
        by simp
    qed
    have bad: "process_row save_err out_dir (rs ! k') fs0 = Inl x"
      using Cons.prems(3) Suc by simp
    have tl: "process_rows save_err out_dir rs (fs(path 0 \<mapsto> jam 0)) =
            (fold (\<lambda>i d. d(path (Suc i) \<mapsto> jam (Suc i))) [0..<k'] (fs(path 0 \<mapsto> jam 0)), Some x)"
      by (rule Cons.IH [OF len ok bad])
    have shift: "fold (\<lambda>i d. d(path i \<mapsto> jam i)) [0..<Suc k'] fs =
            fold (\<lambda>i d. d(path (Suc i) \<mapsto> jam (Suc i))) [0..<k'] (fs(path 0 \<mapsto> jam 0))"
      by (rule fold_upt_Suc_shift)
    show ?thesis
      by (simp only: Suc shift process_rows.simps step tl sum.case)
  qed
qed

lemma written_files_present:
  "i < k \<Longrightarrow> \<exists>j<k. path j = path i \<and>
      fold (\<lambda>i d. d(path i \<mapsto> jam i)) [0..<k] fs (path i) = Some (jam j)"
proof (induction k)
  case 0
  then show ?case by simp
next
  case (Suc k)
  let ?F = "\<lambda>i d. d(path i \<mapsto> jam i)"
  have step: "fold ?F [0..<Suc k] fs = (fold ?F [0..<k] fs)(path k \<mapsto> jam k)"
    by simp
  show ?case
  proof (cases "path k = path i")
    case True
    have "fold ?F [0..<Suc k] fs (path k) = Some (jam k)"
      by (simp only: step fun_upd_same)
    with True have "k < Suc k \<and> path k = path i \<and>
        fold ?F [0..<Suc k] fs (path i) = Some (jam k)"
      by simp
    then show ?thesis by (rule exI [of _ k])
  next
    case False
    then have ne: "path i \<noteq> path k" by (rule not_sym)
    from False Suc.prems have "i < k" by (cases "i = k") auto
    from Suc.IH [OF this] obtain j where j: "j < k" "path j = path i"
      "fold ?F [0..<k] fs (path i) = Some (jam j)" by blast
    have "fold ?F [0..<Suc k] fs (path i) = fold ?F [0..<k] fs (path i)"
      by (simp only: step fun_upd_other [OF ne])
    with j have "j < Suc k \<and> path j = path i \<and> fold ?F [0..<Suc k] fs (path i) = Some (jam j)"
      by simp
    then show ?thesis by (rule exI [of _ j])
  qed
qed

text \<open>
  The documents and paths of the sample rows.
\<close>

lemma sample_documents:
  "\<exists>jam. create_snippet_jam row_dog_bark = Inr jam \<and> fm_duration (file_metadata jam) = Some (PFloat 4)"
  "\<exists>jam. create_snippet_jam row_siren = Inr jam \<and> fm_duration (file_metadata jam) = Some (PFloat 4)"
  "\<exists>jam. create_snippet_jam row_reversed = Inr jam \<and> fm_duration (file_metadata jam) = Some (PFloat (- 2.5))"
  using create_snippet_jam_Inr [of row_dog_bark "PFloat 4" "PFloat 0" "PFloat 4"
      "PStr ''dog_bark''" "PStr ''100032-3-0-0.wav''"]
    create_snippet_jam_Inr [of row_siren "PFloat 4" "PFloat 0" "PFloat 4"
      "PStr ''siren''" "PStr ''102853-8-0-0.wav''"]
    create_snippet_jam_Inr [of row_reversed "PFloat 1.5" "PFloat 4" "PFloat (- 2.5)"
      "PStr ''gun_shot''" "PStr ''7061-6-0-0.wav''"]
  by (simp_all add: row_dog_bark_def row_siren_def row_reversed_def)

lemma sample_paths:
  "out_file ''UrbanSound8K_jams'' row_dog_bark = Inr ''UrbanSound8K_jams/100032-3-0-0.jams''"
  "out_file ''UrbanSound8K_jams'' row_siren = Inr ''UrbanSound8K_jams/102853-8-0-0.jams''"
  "out_file ''UrbanSound8K_jams'' row_reversed = Inr ''UrbanSound8K_jams/7061-6-0-0.jams''"
  "out_file ''out/'' row_dog_bark = Inr ''out/100032-3-0-0.jams''"
  by (simp_all add: out_file_def getitem_def str_replace_def replace_all.simps path_join_def
      suffix_to_prefix row_dog_bark_def row_siren_def row_reversed_def)



text \<open>
  Claim C8. Let the table have a row of index \<open>k\<close> on which the loop body raises \<open>x\<close>
  (in building the document, in computing the path or in saving), while the rows before
  it are built and saved: row \<open>i\<close> gives document \<open>jam i\<close> at \<open>path i\<close>. Then the run ends
  with \<open>x\<close>; the disk is the initial one with the files of rows \<open>0..k-1\<close> written in
  table order, so each of these paths holds a document of one of these rows and nothing
  was written for row \<open>k\<close>; and the result is the same whatever rows follow row \<open>k\<close>.
\<close>

theorem process_metadata_aborts_at_first_failure:
  assumes "read_csv metadata_file = Inr rows" and "k < length rows"
    and "\<forall>i<k. create_snippet_jam (rows ! i) = Inr (jam i) \<and>
           out_file out_dir (rows ! i) = Inr (path i) \<and> save_err (path i) (jam i) = None"
    and "process_row save_err out_dir (rows ! k) fs0 = Inl x"
  shows "\<exists>fs'. process_metadata read_csv save_err metadata_file out_dir fs = (fs', Some x) \<and>
           fs' = fold (\<lambda>i d. d(path i \<mapsto> jam i)) [0..<k] fs \<and>
           (\<forall>i<k. \<exists>j<k. path j = path i \<and> fs' (path i) = Some (jam j)) \<and>
           (\<forall>rest. process_rows save_err out_dir (take (Suc k) rows @ rest) fs = (fs', Some x))"
proof -
  let ?fs' = "fold (\<lambda>i d. d(path i \<mapsto> jam i)) [0..<k] fs"
  have run: "process_metadata read_csv save_err metadata_file out_dir fs = (?fs', Some x)"
    using assms(1) process_rows_first_failure [OF assms(2,3,4), of fs]
    by (simp add: process_metadata_def)
  have files: "\<forall>i<k. \<exists>j<k. path j = path i \<and> ?fs' (path i) = Some (jam j)"
  proof (intro allI impI)
    fix i assume "i < k"
    then show "\<exists>j<k. path j = path i \<and> ?fs' (path i) = Some (jam j)"
      by (rule written_files_present)
  qed
  have rest: "process_rows save_err out_dir (take (Suc k) rows @ rest) fs = (?fs', Some x)" for rest
  proof (rule process_rows_first_failure [where ?fs0.0 = fs0])
    show "k < length (take (Suc k) rows @ rest)" using assms(2) by simp
    show "\<forall>i<k. create_snippet_jam ((take (Suc k) rows @ rest) ! i) = Inr (jam i) \<and>
           out_file out_dir ((take (Suc k) rows @ rest) ! i) = Inr (path i) \<and>
           save_err (path i) (jam i) = None"
      using assms(2,3) by (simp add: nth_append)
    show "process_row save_err out_dir ((take (Suc k) rows @ rest) ! k) fs0 = Inl x"
      using assms(2,4) by (simp add: nth_append)
  qed
  from run files rest show ?thesis by (intro exI [of _ ?fs'] conjI allI) simp_all
qed

theorem process_metadata_aborts_at_first_failure_witness:
  "\<exists>jam bad fs'.
     create_snippet_jam row_dog_bark = Inr jam \<and>
     rejects_negative ''UrbanSound8K_jams/100032-3-0-0.jams'' jam = None \<and>
     create_snippet_jam row_reversed = Inr bad \<and>
     rejects_negative ''UrbanSound8K_jams/7061-6-0-0.jams'' bad = Some (OtherError ''SchemaError'') \<and>
     process_metadata (\<lambda>f. Inr [row_dog_bark, row_reversed, row_siren]) rejects_negative
       ''UrbanSound8K.csv'' ''UrbanSound8K_jams'' Map.empty = (fs', Some (OtherError ''SchemaError'')) \<and>
     fs' = [''UrbanSound8K_jams/100032-3-0-0.jams'' \<mapsto> jam]"
proof -
  let ?rows = "[row_dog_bark, row_reversed, row_siren]"
  let ?p = "''UrbanSound8K_jams/100032-3-0-0.jams''"
  let ?x = "OtherError ''SchemaError''"
  from sample_documents(1) obtain jam where jam: "create_snippet_jam row_dog_bark = Inr jam"
    "fm_duration (file_metadata jam) = Some (PFloat 4)" by blast
  from sample_documents(3) obtain bad where bad: "create_snippet_jam row_reversed = Inr bad"
    "fm_duration (file_metadata bad) = Some (PFloat (- 2.5))" by blast
  have ok: "rejects_negative ?p jam = None"
    using jam(2) by (simp add: rejects_negative_def)
  have rej: "rejects_negative ''UrbanSound8K_jams/7061-6-0-0.jams'' bad = Some ?x"
    using bad(2) by (simp add: rejects_negative_def)
  have h1: "(\<lambda>f. Inr ?rows) ''UrbanSound8K.csv'' = (Inr ?rows :: error + row list)" by simp
  have h2: "1 < length ?rows" by simp
  have h3: "\<forall>i<1. create_snippet_jam (?rows ! i) = Inr ((\<lambda>i. jam) i) \<and>
      out_file ''UrbanSound8K_jams'' (?rows ! i) = Inr ((\<lambda>i. ?p) i) \<and>
      rejects_negative ((\<lambda>i. ?p) i) ((\<lambda>i. jam) i) = None"
    using jam(1) ok sample_paths(1) by simp
  have h4: "process_row rejects_negative ''UrbanSound8K_jams'' (?rows ! 1) Map.empty = Inl ?x"
    using bad(1) rej sample_paths(3) by (simp add: process_row_def jam_save_def)
  from process_metadata_aborts_at_first_failure [of "\<lambda>f. Inr ?rows" "''UrbanSound8K.csv''"
      ?rows 1 "\<lambda>i. jam" "''UrbanSound8K_jams''" "\<lambda>i. ?p" rejects_negative Map.empty ?x
      Map.empty, OF h1 h2 h3 h4]
  have "process_metadata (\<lambda>f. Inr ?rows) rejects_negative ''UrbanSound8K.csv''
      ''UrbanSound8K_jams'' Map.empty = ([?p \<mapsto> jam], Some ?x)"
    by simp
  with jam(1) ok bad(1) rej show ?thesis by blast
qed



end
